theory Spec2Isabelle
  imports Complex_Main "HOL-Library.Sublist"
begin

section \<open>Python values\<close>

text \<open>
  The pipeline handles JSON documents decoded by the HTTP client: \<open>None\<close>, booleans,
  integers, floats, strings, lists and objects. A Python dict is an association list
  read with \<open>map_of\<close>. Strings are byte strings (UTF-8). The float type is left
  abstract (the type variable \<open>'f\<close>): nothing below depends on rounding, only on whether
  a conversion succeeds.
\<close>

datatype 'f pyval =
    PNone
  | PBool bool
  | PInt int
  | PFloat 'f
  | PStr string
  | PList "'f pyval list"
  | PDict "(string \<times> 'f pyval) list"

type_synonym 'f pydict = "(string \<times> 'f pyval) list"

datatype py_error =
    KeyError | TypeError | ValueError | AttributeError | IndexError | OverflowError
  | ZeroDivisionError

text \<open>
  The library functions the pipeline calls but does not define: \<open>json.loads\<close>, the
  \<open>float\<close> constructor on strings and on integers (\<open>None\<close> when Python raises), and
  the test \<open>x == 0.0\<close> that decides the truth value of a float.
\<close>

record 'f env =
  json_loads :: "string \<Rightarrow> 'f pyval option"
  float_of_str :: "string \<Rightarrow> 'f option"
  float_of_int :: "int \<Rightarrow> 'f option"
  float_is_zero :: "'f \<Rightarrow> bool"

text \<open>\<open>bool(v)\<close>: the truth value Python gives a value in \<open>if v\<close> and \<open>a and b\<close>.\<close>

fun truthy :: "'f env \<Rightarrow> 'f pyval \<Rightarrow> bool" where
  "truthy E PNone = False"
| "truthy E (PBool b) = b"
| "truthy E (PInt n) = (n \<noteq> 0)"
| "truthy E (PFloat x) = (\<not> float_is_zero E x)"
| "truthy E (PStr s) = (s \<noteq> [])"
| "truthy E (PList xs) = (xs \<noteq> [])"
| "truthy E (PDict d) = (d \<noteq> [])"

text \<open>\<open>float(v)\<close>; \<open>Inl\<close> is the exception Python raises.\<close>

fun py_float :: "'f env \<Rightarrow> 'f pyval \<Rightarrow> py_error + 'f" where
  "py_float E PNone = Inl TypeError"
| "py_float E (PBool b) =
     (case float_of_int E (if b then 1 else 0) of None \<Rightarrow> Inl OverflowError | Some x \<Rightarrow> Inr x)"
| "py_float E (PInt n) =
     (case float_of_int E n of None \<Rightarrow> Inl OverflowError | Some x \<Rightarrow> Inr x)"
| "py_float E (PFloat x) = Inr x"
| "py_float E (PStr s) =
     (case float_of_str E s of None \<Rightarrow> Inl ValueError | Some x \<Rightarrow> Inr x)"
| "py_float E (PList xs) = Inl TypeError"
| "py_float E (PDict d) = Inl TypeError"

text \<open>\<open>len(v)\<close>.\<close>

fun py_len :: "'f pyval \<Rightarrow> py_error + nat" where
  "py_len (PStr s) = Inr (length s)"
| "py_len (PList xs) = Inr (length xs)"
| "py_len (PDict d) = Inr (length d)"
| "py_len v = Inl TypeError"

text \<open>
  \<open>v[i]\<close> for a literal index \<open>i \<ge> 0\<close>. A decoded JSON object has string keys only, so
  an integer subscript on it is a \<open>KeyError\<close>.
\<close>

fun py_getitem :: "'f pyval \<Rightarrow> nat \<Rightarrow> py_error + 'f pyval" where
  "py_getitem (PStr s) i = (if i < length s then Inr (PStr [s ! i]) else Inl IndexError)"
| "py_getitem (PList xs) i = (if i < length xs then Inr (xs ! i) else Inl IndexError)"
| "py_getitem (PDict d) i = Inl KeyError"
| "py_getitem v i = Inl TypeError"

text \<open>\<open>d.get(k, default)\<close> and \<open>d.get(k)\<close>.\<close>

definition dict_get :: "'f pydict \<Rightarrow> string \<Rightarrow> 'f pyval \<Rightarrow> 'f pyval" where
  "dict_get d k dflt = (case map_of d k of None \<Rightarrow> dflt | Some v \<Rightarrow> v)"

text \<open>\<open>str.lower()\<close> on the ASCII letters; every keyword below is ASCII.\<close>

definition lower_char :: "char \<Rightarrow> char" where
  "lower_char c =
     (case map_of (zip ''ABCDEFGHIJKLMNOPQRSTUVWXYZ'' ''abcdefghijklmnopqrstuvwxyz'') c of
        None \<Rightarrow> c
      | Some l \<Rightarrow> l)"

definition lower :: "string \<Rightarrow> string" where
  "lower s = map lower_char s"

section \<open>The fetcher: crypto filter\<close>

definition CRYPTO_KEYWORDS :: "string list" where
  "CRYPTO_KEYWORDS =
     [''bitcoin'', ''btc'', ''ethereum'', ''eth'', ''crypto'',
      ''solana'', ''sol'', ''dogecoin'', ''doge'', ''xrp'', ''ripple'',
      ''cardano'', ''ada'', ''polygon'', ''matic'', ''arbitrum'']"

text \<open>
  \<open>market.get('question', '').lower()\<close>: the method \<open>get\<close> exists on a dict only, and
  \<open>lower\<close> on a string only; anything else raises \<open>AttributeError\<close>.
\<close>

fun question_lower :: "'f pyval \<Rightarrow> py_error + string" where
  "question_lower (PDict d) =
     (case dict_get d ''question'' (PStr []) of
        PStr s \<Rightarrow> Inr (lower s)
      | _ \<Rightarrow> Inl AttributeError)"
| "question_lower v = Inl AttributeError"

text \<open>\<open>any(keyword in question for keyword in self.CRYPTO_KEYWORDS)\<close>.\<close>

definition any_keyword :: "string \<Rightarrow> bool" where
  "any_keyword question = list_ex (\<lambda>keyword. sublist keyword question) CRYPTO_KEYWORDS"

text \<open>
  The loop of \<open>filter_crypto_markets\<close>, with the list \<open>crypto_markets\<close> built so far
  as accumulator. An exception leaves the loop and the function.
\<close>

fun filter_loop :: "'f pyval list \<Rightarrow> 'f pyval list \<Rightarrow> py_error + 'f pyval list" where
  "filter_loop [] crypto_markets = Inr crypto_markets"
| "filter_loop (market # markets) crypto_markets =
     (case question_lower market of
        Inl e \<Rightarrow> Inl e
      | Inr question \<Rightarrow>
          if any_keyword question
          then filter_loop markets (crypto_markets @ [market])
          else filter_loop markets crypto_markets)"

definition filter_crypto_markets :: "'f pyval list \<Rightarrow> py_error + 'f pyval list" where
  "filter_crypto_markets markets = filter_loop markets []"

section \<open>The fetcher: record normalizer\<close>

text \<open>
  \<open>float(outcome_prices[i]) if outcome_prices and len(outcome_prices) > i else None\<close>.
\<close>

definition price_at :: "'f env \<Rightarrow> 'f pyval \<Rightarrow> nat \<Rightarrow> py_error + 'f pyval" where
  "price_at E outcome_prices i =
     (if \<not> truthy E outcome_prices then Inr PNone
      else case py_len outcome_prices of
             Inl e \<Rightarrow> Inl e
           | Inr n \<Rightarrow>
               if n > i then
                 (case py_getitem outcome_prices i of
                    Inl e \<Rightarrow> Inl e
                  | Inr v \<Rightarrow> (case py_float E v of Inl e \<Rightarrow> Inl e | Inr x \<Rightarrow> Inr (PFloat x)))
               else Inr PNone)"

text \<open>\<open>float(market.get(k, 0)) if market.get(k) else 0\<close>.\<close>

definition volume_of :: "'f env \<Rightarrow> 'f pydict \<Rightarrow> string \<Rightarrow> py_error + 'f pyval" where
  "volume_of E market k =
     (if truthy E (dict_get market k PNone)
      then (case py_float E (dict_get market k (PInt 0)) of
              Inl e \<Rightarrow> Inl e | Inr x \<Rightarrow> Inr (PFloat x))
      else Inr (PInt 0))"

text \<open>The body of the \<open>try\<close> block of \<open>extract_market_data\<close>.\<close>

definition extract_body :: "'f env \<Rightarrow> 'f pydict \<Rightarrow> py_error + 'f pydict" where
  "extract_body E market =
     (let outcome_prices0 = dict_get market ''outcomePrices'' (PList []);
          outcome_prices =
            (case outcome_prices0 of
               PStr s \<Rightarrow> (case json_loads E s of None \<Rightarrow> PList [] | Some v \<Rightarrow> v)
             | _ \<Rightarrow> outcome_prices0)
      in case price_at E outcome_prices 0 of
           Inl e \<Rightarrow> Inl e
         | Inr yes_price \<Rightarrow>
       (case price_at E outcome_prices 1 of
           Inl e \<Rightarrow> Inl e
         | Inr no_price \<Rightarrow>
       (case volume_of E market ''volume24h'' of
           Inl e \<Rightarrow> Inl e
         | Inr volume_24h \<Rightarrow>
       (case volume_of E market ''volume'' of
           Inl e \<Rightarrow> Inl e
         | Inr volume \<Rightarrow>
           Inr [(''market_id'', dict_get market ''id'' PNone),
                (''question'', dict_get market ''question'' (PStr ''Unknown'')),
                (''description'', dict_get market ''description'' PNone),
                (''yes_price'', yes_price),
                (''no_price'', no_price),
                (''volume_24h'', volume_24h),
                (''volume'', volume),
                (''active'', dict_get market ''active'' (PBool True)),
                (''resolved'', dict_get market ''resolved'' (PBool False)),
                (''outcome'', dict_get market ''outcome'' PNone),
                (''end_date'', dict_get market ''endDate'' PNone)]))))"

text \<open>
  \<open>extract_market_data\<close>: any exception of the body is logged and turned into the
  result \<open>None\<close>.
\<close>

definition extract_market_data :: "'f env \<Rightarrow> 'f pydict \<Rightarrow> 'f pydict option" where
  "extract_market_data E market =
     (case extract_body E market of Inl e \<Rightarrow> None | Inr market_data \<Rightarrow> Some market_data)"

section \<open>The fetcher: HTTP request with bounded retries\<close>

text \<open>
  What one attempt (\<open>requests.get\<close>, \<open>raise_for_status\<close>, \<open>response.json()\<close>) can
  do: deliver the decoded document, raise \<open>requests.exceptions.ConnectionError\<close>,
  raise \<open>requests.exceptions.Timeout\<close>, or raise any other exception (an HTTP error
  status, an undecodable body). The network is a function from the page size and the
  attempt number to the outcome of that attempt.
\<close>

datatype 'f http_outcome =
    Response "'f pyval"
  | ConnectionError
  | Timeout
  | OtherError

definition MAX_RETRIES :: nat where
  "MAX_RETRIES = 3"

text \<open>
  The result of \<open>fetch_markets\<close> together with its effects: the value returned, the
  arguments of the calls of \<open>time.sleep\<close> in order, and the number of requests sent.
\<close>

record 'f fetch_result =
  markets :: "'f pyval"
  sleeps :: "nat list"
  attempts :: nat

text \<open>
  The \<open>for attempt in range(self.MAX_RETRIES)\<close> loop. The log line after a response
  evaluates \<open>len(markets)\<close> inside the \<open>try\<close>, so a document without a length ends
  in the \<open>except Exception\<close> branch.
\<close>

function fetch_loop ::
  "(nat \<Rightarrow> nat \<Rightarrow> 'f http_outcome) \<Rightarrow> nat \<Rightarrow> nat \<Rightarrow> nat list \<Rightarrow> 'f fetch_result" where
  "fetch_loop http limit attempt slept =
     (if attempt < MAX_RETRIES then
        (case http limit attempt of
           Response v \<Rightarrow>
             (case py_len v of
                Inl e \<Rightarrow> \<lparr>markets = PList [], sleeps = slept, attempts = attempt + 1\<rparr>
              | Inr n \<Rightarrow> \<lparr>markets = v, sleeps = slept, attempts = attempt + 1\<rparr>)
         | ConnectionError \<Rightarrow>
             if attempt < MAX_RETRIES - 1
             then fetch_loop http limit (attempt + 1) (slept @ [2 ^ attempt])
             else \<lparr>markets = PList [], sleeps = slept, attempts = attempt + 1\<rparr>
         | Timeout \<Rightarrow>
             if attempt < MAX_RETRIES - 1
             then fetch_loop http limit (attempt + 1) (slept @ [2 ^ attempt])
             else \<lparr>markets = PList [], sleeps = slept, attempts = attempt + 1\<rparr>
         | OtherError \<Rightarrow> \<lparr>markets = PList [], sleeps = slept, attempts = attempt + 1\<rparr>)
      else \<lparr>markets = PList [], sleeps = slept, attempts = attempt\<rparr>)"
  by pat_completeness auto
termination
  by (relation "measure (\<lambda>(http, limit, attempt, slept). MAX_RETRIES - attempt)") auto

declare fetch_loop.simps [simp del]

definition fetch_markets ::
  "(nat \<Rightarrow> nat \<Rightarrow> 'f http_outcome) \<Rightarrow> nat \<Rightarrow> 'f fetch_result" where
  "fetch_markets http limit = fetch_loop http limit 0 []"

section \<open>The store\<close>

text \<open>
  A row of the table \<open>markets\<close> (class \<open>Market\<close>). A column holds the Python value
  the pipeline wrote to it; the timestamps are microseconds. The primary key \<open>id\<close> is
  called \<open>row_id\<close> here.
\<close>

record 'f market_row =
  row_id :: nat
  market_id :: "'f pyval"
  question :: "'f pyval"
  description :: "'f pyval"
  yes_price :: "'f pyval"
  no_price :: "'f pyval"
  volume :: "'f pyval"
  volume_24h :: "'f pyval"
  liquidity :: "'f pyval"
  active :: "'f pyval"
  resolved :: "'f pyval"
  outcome :: "'f pyval"
  end_date :: "'f pyval"
  created_at :: int
  updated_at :: int

text \<open>\<open>d[k]\<close> on a dict.\<close>

definition dict_item :: "'f pydict \<Rightarrow> string \<Rightarrow> py_error + 'f pyval" where
  "dict_item d k = (case map_of d k of None \<Rightarrow> Inl KeyError | Some v \<Rightarrow> Inr v)"

text \<open>\<open>session.query(Market).filter_by(market_id=mid).first()\<close>.\<close>

definition query_first :: "'f pyval \<Rightarrow> 'f market_row list \<Rightarrow> 'f market_row option" where
  "query_first mid rows = find (\<lambda>r. market_id r = mid) rows"

text \<open>
  The object returned by the query is the row held by the session: assigning to its
  attributes changes that row in place.
\<close>

fun modify_first :: "('a \<Rightarrow> bool) \<Rightarrow> ('a \<Rightarrow> 'a) \<Rightarrow> 'a list \<Rightarrow> 'a list" where
  "modify_first P f [] = []"
| "modify_first P f (x # xs) = (if P x then f x # xs else x # modify_first P f xs)"

text \<open>
  The update branch: eight assignments in the order of the source. A subscript on a
  missing key raises \<open>KeyError\<close> and leaves the assignments already made in place.
  The result is the row and the exception, if any.
\<close>

definition update_existing ::
  "int \<Rightarrow> 'f pydict \<Rightarrow> 'f market_row \<Rightarrow> 'f market_row \<times> py_error option" where
  "update_existing now market_data existing =
     (case dict_item market_data ''yes_price'' of
        Inl e \<Rightarrow> (existing, Some e)
      | Inr v1 \<Rightarrow>
     (case dict_item market_data ''no_price'' of
        Inl e \<Rightarrow> (existing\<lparr>yes_price := v1\<rparr>, Some e)
      | Inr v2 \<Rightarrow>
     (case dict_item market_data ''volume_24h'' of
        Inl e \<Rightarrow> (existing\<lparr>yes_price := v1, no_price := v2\<rparr>, Some e)
      | Inr v3 \<Rightarrow>
     (case dict_item market_data ''volume'' of
        Inl e \<Rightarrow> (existing\<lparr>yes_price := v1, no_price := v2, volume_24h := v3\<rparr>, Some e)
      | Inr v4 \<Rightarrow>
     (case dict_item market_data ''active'' of
        Inl e \<Rightarrow>
          (existing\<lparr>yes_price := v1, no_price := v2, volume_24h := v3, volume := v4\<rparr>, Some e)
      | Inr v5 \<Rightarrow>
     (case dict_item market_data ''resolved'' of
        Inl e \<Rightarrow>
          (existing\<lparr>yes_price := v1, no_price := v2, volume_24h := v3, volume := v4,
             active := v5\<rparr>, Some e)
      | Inr v6 \<Rightarrow>
     (case dict_item market_data ''outcome'' of
        Inl e \<Rightarrow>
          (existing\<lparr>yes_price := v1, no_price := v2, volume_24h := v3, volume := v4,
             active := v5, resolved := v6\<rparr>, Some e)
      | Inr v7 \<Rightarrow>
          (existing\<lparr>yes_price := v1, no_price := v2, volume_24h := v3, volume := v4,
             active := v5, resolved := v6, outcome := v7, updated_at := now\<rparr>, None))))))))"

text \<open>
  The create branch: the ten keyword arguments of \<open>Market(...)\<close> are evaluated first,
  so a missing key raises before any row exists. The columns the call does not set
  take their defaults: \<open>liquidity\<close> 0, \<open>end_date\<close> null, \<open>created_at\<close> and
  \<open>updated_at\<close> one reading of the clock each, \<open>id\<close> the next free row id.
\<close>

definition next_row_id :: "'f market_row list \<Rightarrow> nat" where
  "next_row_id rows = Suc (fold max (map row_id rows) 0)"

definition new_market ::
  "nat \<Rightarrow> int \<Rightarrow> int \<Rightarrow> 'f pydict \<Rightarrow> py_error + 'f market_row" where
  "new_market rid t_created t_updated market_data =
     (case dict_item market_data ''market_id'' of Inl e \<Rightarrow> Inl e | Inr a1 \<Rightarrow>
     (case dict_item market_data ''question'' of Inl e \<Rightarrow> Inl e | Inr a2 \<Rightarrow>
     (case dict_item market_data ''description'' of Inl e \<Rightarrow> Inl e | Inr a3 \<Rightarrow>
     (case dict_item market_data ''yes_price'' of Inl e \<Rightarrow> Inl e | Inr a4 \<Rightarrow>
     (case dict_item market_data ''no_price'' of Inl e \<Rightarrow> Inl e | Inr a5 \<Rightarrow>
     (case dict_item market_data ''volume_24h'' of Inl e \<Rightarrow> Inl e | Inr a6 \<Rightarrow>
     (case dict_item market_data ''volume'' of Inl e \<Rightarrow> Inl e | Inr a7 \<Rightarrow>
     (case dict_item market_data ''active'' of Inl e \<Rightarrow> Inl e | Inr a8 \<Rightarrow>
     (case dict_item market_data ''resolved'' of Inl e \<Rightarrow> Inl e | Inr a9 \<Rightarrow>
     (case dict_item market_data ''outcome'' of Inl e \<Rightarrow> Inl e | Inr a10 \<Rightarrow>
        Inr \<lparr>row_id = rid, market_id = a1, question = a2, description = a3,
             yes_price = a4, no_price = a5, volume = a7, volume_24h = a6,
             liquidity = PInt 0, active = a8, resolved = a9, outcome = a10,
             end_date = PNone, created_at = t_created, updated_at = t_updated\<rparr>))))))))))"

text \<open>
  The state of the loop of \<open>store_markets\<close>: the rows as the session sees them
  (autoflush makes a pending row visible to the next query), the number of clock
  readings taken so far, and \<open>stored_count\<close>.
\<close>

record 'f loop_state =
  rows :: "'f market_row list"
  ticks :: nat
  stored_count :: nat

text \<open>
  The column \<open>updated_at\<close> is declared with \<open>onupdate=datetime.utcnow\<close>: when
  the session flushes a row whose columns changed and the pipeline did not assign
  \<open>updated_at\<close> itself (the update branch left by a \<open>KeyError\<close>), the UPDATE
  statement takes one reading of the clock for it. A row assigned its old values is
  not flushed.
\<close>

definition onupdate ::
  "int \<Rightarrow> 'f market_row \<Rightarrow> 'f market_row \<Rightarrow> 'f market_row" where
  "onupdate now existing existing' =
     (if existing' = existing then existing else existing'\<lparr>updated_at := now\<rparr>)"

text \<open>
  One iteration. \<open>clock k\<close> is the \<open>k\<close>-th reading of \<open>datetime.utcnow()\<close> during
  the call. An exception of the inner \<open>try\<close> is logged and the loop goes on, without
  counting the record.
\<close>

definition process_market ::
  "(nat \<Rightarrow> int) \<Rightarrow> 'f pydict \<Rightarrow> 'f loop_state \<Rightarrow> 'f loop_state" where
  "process_market clock market_data s =
     (if market_data = [] then s
      else case dict_item market_data ''market_id'' of
             Inl e \<Rightarrow> s
           | Inr mid \<Rightarrow>
               (case query_first mid (rows s) of
                  Some existing \<Rightarrow>
                    (case update_existing (clock (ticks s)) market_data existing of
                       (existing', Some e) \<Rightarrow>
                         s\<lparr>rows := modify_first (\<lambda>r. market_id r = mid)
                                     (\<lambda>r. onupdate (clock (ticks s)) existing existing')
                                     (rows s),
                           ticks := (if existing' = existing then ticks s else ticks s + 1)\<rparr>
                     | (existing', None) \<Rightarrow>
                         s\<lparr>rows := modify_first (\<lambda>r. market_id r = mid)
                                     (\<lambda>r. existing') (rows s),
                           ticks := ticks s + 1,
                           stored_count := stored_count s + 1\<rparr>)
                | None \<Rightarrow>
                    (case new_market (next_row_id (rows s)) (clock (ticks s))
                            (clock (ticks s + 1)) market_data of
                       Inl e \<Rightarrow> s
                     | Inr new_row \<Rightarrow>
                         s\<lparr>rows := rows s @ [new_row],
                           ticks := ticks s + 2,
                           stored_count := stored_count s + 1\<rparr>)))"

text \<open>
  \<open>store_markets\<close>. \<open>db\<close> is the committed table. \<open>commit_ok\<close> tells whether
  \<open>session.commit()\<close> succeeds: a failed flush (a constraint of the schema violated
  by a value written, a locked database) ends in the outer \<open>except\<close>, which rolls the
  transaction back. The result is the committed table after the call and the value
  returned.
\<close>

definition store_markets ::
  "(nat \<Rightarrow> int) \<Rightarrow> bool \<Rightarrow> 'f market_row list \<Rightarrow> 'f pydict list
     \<Rightarrow> 'f market_row list \<times> nat" where
  "store_markets clock commit_ok db crypto_markets =
     (if crypto_markets = [] then (db, 0)
      else let s = fold (process_market clock) crypto_markets
                     \<lparr>rows = db, ticks = 0, stored_count = 0\<rparr>
           in if commit_ok then (rows s, stored_count s) else (db, 0))"

section \<open>One cycle\<close>

text \<open>\<open>for x in v\<close>: the elements a loop over a value visits.\<close>

fun py_iter :: "'f pyval \<Rightarrow> py_error + 'f pyval list" where
  "py_iter (PList xs) = Inr xs"
| "py_iter (PStr s) = Inr (map (\<lambda>c. PStr [c]) s)"
| "py_iter (PDict d) = Inr (map (\<lambda>kv. PStr (fst kv)) d)"
| "py_iter v = Inl TypeError"

text \<open>
  The loop of \<open>fetch_and_store_markets\<close> that normalizes the selected payloads and
  keeps the records that are not \<open>None\<close>. A payload that is not a dict has no method
  \<open>get\<close>; the handler of \<open>extract_market_data\<close> calls \<open>market.get\<close> again, so that
  exception leaves the function.
\<close>

fun extract_loop ::
  "'f env \<Rightarrow> 'f pyval list \<Rightarrow> 'f pydict list \<Rightarrow> py_error + 'f pydict list" where
  "extract_loop E [] market_data_list = Inr market_data_list"
| "extract_loop E (PDict market # crypto_markets) market_data_list =
     (case extract_market_data E market of
        None \<Rightarrow> extract_loop E crypto_markets market_data_list
      | Some market_data \<Rightarrow>
          if market_data = [] then extract_loop E crypto_markets market_data_list
          else extract_loop E crypto_markets (market_data_list @ [market_data]))"
| "extract_loop E (v # crypto_markets) market_data_list = Inl AttributeError"

text \<open>
  \<open>fetch_and_store_markets\<close>: the value returned and the committed table after the
  cycle. Every exception ends in the outer \<open>except\<close>, which returns \<open>False\<close>.
\<close>

definition fetch_and_store_markets ::
  "'f env \<Rightarrow> (nat \<Rightarrow> nat \<Rightarrow> 'f http_outcome) \<Rightarrow> (nat \<Rightarrow> int) \<Rightarrow> bool
     \<Rightarrow> 'f market_row list \<Rightarrow> bool \<times> 'f market_row list" where
  "fetch_and_store_markets E http clock commit_ok db =
     (let fetched = markets (fetch_markets http 100)
      in if \<not> truthy E fetched then (False, db)
         else case py_iter fetched of
                Inl e \<Rightarrow> (False, db)
              | Inr payloads \<Rightarrow>
                  (case filter_crypto_markets payloads of
                     Inl e \<Rightarrow> (False, db)
                   | Inr crypto_markets \<Rightarrow>
                       if crypto_markets = [] then (False, db)
                       else (case extract_loop E crypto_markets [] of
                               Inl e \<Rightarrow> (False, db)
                             | Inr market_data_list \<Rightarrow>
                                 (True, fst (store_markets clock commit_ok db
                                               market_data_list)))))"

section \<open>The monitor\<close>

text \<open>
  \<open>session.query(Market).order_by(Market.updated_at.desc()).first()\<close>: a row with
  the greatest \<open>updated_at\<close>.
\<close>

definition latest_market :: "'f market_row list \<Rightarrow> 'f market_row option" where
  "latest_market db =
     (case db of
        [] \<Rightarrow> None
      | r # rs \<Rightarrow>
          Some (fold (\<lambda>x best. if updated_at best < updated_at x then x else best) rs r))"

definition get_last_update_time :: "'f market_row list \<Rightarrow> int option" where
  "get_last_update_time db = map_option updated_at (latest_market db)"

text \<open>
  The status strings of the source are a symbol followed by \<open>FRESH\<close>, \<open>STALE\<close> or
  \<open>VERY STALE\<close>, and \<open>No data in database\<close>.
\<close>

datatype freshness = FRESH | STALE | VERY_STALE | NO_DATA

definition minutes :: "int \<Rightarrow> int" where
  "minutes n = n * 60 * 1000000"

definition hours :: "int \<Rightarrow> int" where
  "hours n = n * 3600 * 1000000"

text \<open>\<open>get_data_freshness\<close>; \<open>utcnow\<close> is the reading of the clock in the call.\<close>

definition get_data_freshness :: "int \<Rightarrow> 'f market_row list \<Rightarrow> int option \<times> freshness" where
  "get_data_freshness utcnow db =
     (case get_last_update_time db of
        None \<Rightarrow> (None, NO_DATA)
      | Some last_update \<Rightarrow>
          (let age = utcnow - last_update
           in (Some age,
               if age < minutes 20 then FRESH
               else if age < hours 1 then STALE
               else VERY_STALE)))"

text \<open>
  The log file as \<open>get_log_summary\<close> finds it: absent, failing while it is read
  (with the text of the exception), or a list of lines.
\<close>

datatype log_file = Missing | Unreadable string | Lines "string list"

text \<open>
  The float operations of the success rate: the true division of two integers
  (divisor not 0), the product of a float and an integer, and the format \<open>.1f\<close>.
\<close>

record 'f float_ops =
  int_truediv :: "int \<Rightarrow> int \<Rightarrow> 'f"
  float_mul_int :: "'f \<Rightarrow> int \<Rightarrow> 'f"
  format_1f :: "'f \<Rightarrow> string"

definition py_truediv :: "'f float_ops \<Rightarrow> int \<Rightarrow> int \<Rightarrow> py_error + 'f" where
  "py_truediv F a b = (if b = 0 then Inl ZeroDivisionError else Inr (int_truediv F a b))"

text \<open>The loop over the lines: \<open>(successful, failed)\<close>.\<close>

fun count_runs :: "string list \<Rightarrow> nat \<times> nat \<Rightarrow> nat \<times> nat" where
  "count_runs [] (successful, failed) = (successful, failed)"
| "count_runs (line # ls) (successful, failed) =
     (if sublist ''Data fetch completed successfully'' line
      then count_runs ls (successful + 1, failed)
      else if sublist ''Fatal error in fetch_and_store_markets'' line
      then count_runs ls (successful, failed + 1)
      else count_runs ls (successful, failed))"

text \<open>
  The conditional expression under the key \<open>success_rate\<close>: the division is
  evaluated only when the condition holds.
\<close>

definition success_rate :: "'f float_ops \<Rightarrow> nat \<Rightarrow> nat \<Rightarrow> py_error + 'f pyval" where
  "success_rate F successful failed =
     (if successful + failed > 0
      then (case py_truediv F (int successful) (int successful + int failed) of
              Inl e \<Rightarrow> Inl e
            | Inr q \<Rightarrow> Inr (PStr (format_1f F (float_mul_int F q 100) @ ''%'')))
      else Inr (PStr ''N/A''))"

definition get_log_summary :: "'f float_ops \<Rightarrow> log_file \<Rightarrow> py_error + 'f pydict" where
  "get_log_summary F log_file =
     (case log_file of
        Missing \<Rightarrow>
          Inr [(''total_fetches'', PInt 0),
               (''successful_fetches'', PInt 0),
               (''failed_fetches'', PInt 0)]
      | Unreadable msg \<Rightarrow> Inr [(''error'', PStr (''Could not read log: '' @ msg))]
      | Lines ls \<Rightarrow>
          (case count_runs ls (0, 0) of
             (successful, failed) \<Rightarrow>
               (case success_rate F successful failed of
                  Inl e \<Rightarrow> Inl e
                | Inr rate \<Rightarrow>
                    Inr [(''total_fetches'', PInt (int successful + int failed)),
                         (''successful_fetches'', PInt (int successful)),
                         (''failed_fetches'', PInt (int failed)),
                         (''success_rate'', rate)])))"

text \<open>
  The lines of \<open>print_status\<close> that print the summary: the text printed, or the
  exception of the subscript on a missing key.
\<close>

definition print_performance :: "'f pydict \<Rightarrow> py_error + unit" where
  "print_performance log_summary =
     (if map_of log_summary ''error'' = None
      then (case dict_item log_summary ''total_fetches'' of Inl e \<Rightarrow> Inl e | Inr a \<Rightarrow>
           (case dict_item log_summary ''successful_fetches'' of Inl e \<Rightarrow> Inl e | Inr b \<Rightarrow>
           (case dict_item log_summary ''failed_fetches'' of Inl e \<Rightarrow> Inl e | Inr c \<Rightarrow>
           (case dict_item log_summary ''success_rate'' of Inl e \<Rightarrow> Inl e | Inr d \<Rightarrow>
              Inr ()))))
      else (case dict_item log_summary ''error'' of Inl e \<Rightarrow> Inl e | Inr m \<Rightarrow> Inr ()))"

section \<open>Predicates of the specification and data of the examples\<close>

text \<open>
  A payload the filter can read: a JSON object whose \<open>question\<close>, when present, is a
  string.
\<close>

definition question_is_text :: "'f pyval \<Rightarrow> bool" where
  "question_is_text m =
     (case m of
        PDict d \<Rightarrow>
          (case map_of d ''question'' of
             None \<Rightarrow> True
           | Some (PStr s) \<Rightarrow> True
           | Some _ \<Rightarrow> False)
      | _ \<Rightarrow> False)"

text \<open>
  The selection the specification describes: the question is there and its lower-case
  form contains one of the keywords.
\<close>

definition crypto_payload :: "'f pyval \<Rightarrow> bool" where
  "crypto_payload m =
     (case m of
        PDict d \<Rightarrow>
          (case map_of d ''question'' of
             Some (PStr s) \<Rightarrow> list_ex (\<lambda>k. sublist k (lower s)) CRYPTO_KEYWORDS
           | _ \<Rightarrow> False)
      | _ \<Rightarrow> False)"

text \<open>Four payloads: two about crypto, one about the weather, one without a question.\<close>

definition payload_btc :: "rat pyval" where
  "payload_btc = PDict [(''id'', PStr ''1''), (''question'', PStr ''Will BTC hit 100k?'')]"

definition payload_rain :: "rat pyval" where
  "payload_rain = PDict [(''id'', PStr ''2''), (''question'', PStr ''Will it rain?'')]"

definition payload_no_question :: "rat pyval" where
  "payload_no_question = PDict [(''id'', PStr ''3'')]"

definition payload_eth :: "rat pyval" where
  "payload_eth = PDict [(''id'', PStr ''4''), (''question'', PStr ''Ethereum above 5k?'')]"

definition payload_null_question :: "rat pyval" where
  "payload_null_question = PDict [(''id'', PStr ''7''), (''question'', PNone)]"

text \<open>The failures \<open>fetch_markets\<close> retries: a connection failure or a timeout.\<close>

definition transient :: "'f http_outcome \<Rightarrow> bool" where
  "transient out =
     (case out of ConnectionError \<Rightarrow> True | Timeout \<Rightarrow> True | _ \<Rightarrow> False)"

text \<open>A document with a length: what \<open>fetch_markets\<close> hands back unchanged.\<close>

definition has_len :: "'f pyval \<Rightarrow> bool" where
  "has_len v = (case py_len v of Inl e \<Rightarrow> False | Inr n \<Rightarrow> True)"

text \<open>A network that fails twice and then answers, and one that answers with an error.\<close>

definition flaky_http :: "nat \<Rightarrow> nat \<Rightarrow> rat http_outcome" where
  "flaky_http limit attempt =
     (if attempt = 0 then ConnectionError
      else if attempt = 1 then Timeout
      else Response (PList [payload_btc, payload_rain]))"

definition down_http :: "nat \<Rightarrow> nat \<Rightarrow> rat http_outcome" where
  "down_http limit attempt = (if attempt = 1 then Timeout else ConnectionError)"

definition broken_http :: "nat \<Rightarrow> nat \<Rightarrow> rat http_outcome" where
  "broken_http limit attempt = (if attempt = 0 then Timeout else OtherError)"

text \<open>
  The library functions in the examples. Floats are the rationals they denote;
  \<open>json.loads\<close> and \<open>float\<close> on strings are tabulated on the strings the examples
  use, where they agree with Python, and reject every other string, as Python
  rejects \<open>n/a\<close>.
\<close>

definition example_env :: "rat env" where
  "example_env =
     \<lparr>json_loads = map_of [(''[0.65, 0.35]'', PList [PFloat (13 / 20), PFloat (7 / 20)])],
      float_of_str = map_of [(''1500.5'', 3001 / 2), (''0.65'', 13 / 20), (''0.35'', 7 / 20)],
      float_of_int = (\<lambda>n. Some (of_int n)),
      float_is_zero = (\<lambda>x. x = 0)\<rparr>"

text \<open>A stored row, written at time 0 and resolved with an outcome.\<close>

definition row_btc :: "rat market_row" where
  "row_btc =
     \<lparr>row_id = 1, market_id = PStr ''1'', question = PStr ''Will BTC hit 100k?'',
      description = PStr ''Resolves on the closing price'',
      yes_price = PFloat (13 / 20), no_price = PFloat (7 / 20),
      volume = PFloat 1000, volume_24h = PFloat 50, liquidity = PInt 0,
      active = PBool True, resolved = PBool True, outcome = PStr ''Yes'',
      end_date = PNone, created_at = 0, updated_at = 0\<rparr>"

text \<open>Networks that answer at once: with no market, and with one market about rain.\<close>

definition empty_http :: "nat \<Rightarrow> nat \<Rightarrow> rat http_outcome" where
  "empty_http limit attempt = Response (PList [])"

definition rain_http :: "nat \<Rightarrow> nat \<Rightarrow> rat http_outcome" where
  "rain_http limit attempt = Response (PList [payload_rain])"

text \<open>
  Raw payloads for the normalizer: one without volume and price fields, one with
  numeric fields, one whose volume is the string \<open>n/a\<close>, one whose volume is a list.
\<close>

definition market_no_volume :: "rat pydict" where
  "market_no_volume = [(''id'', PStr ''9''), (''question'', PStr ''Bitcoin above 90k?'')]"

definition market_numeric :: "rat pydict" where
  "market_numeric =
     [(''id'', PStr ''9''), (''question'', PStr ''Bitcoin above 90k?''),
      (''outcomePrices'', PStr ''[0.65, 0.35]''), (''volume'', PStr ''1500.5''),
      (''volume24h'', PInt 20)]"

definition market_text_volume :: "rat pydict" where
  "market_text_volume =
     [(''id'', PStr ''9''), (''question'', PStr ''Bitcoin above 90k?''),
      (''volume'', PStr ''n/a'')]"

definition market_list_volume :: "rat pydict" where
  "market_list_volume =
     [(''id'', PStr ''9''), (''question'', PStr ''Bitcoin above 90k?''),
      (''volume24h'', PList [PInt 1])]"

text \<open>
  The columns the update branch never assigns: two rows with the same values there.
\<close>

definition same_identity :: "'f market_row \<Rightarrow> 'f market_row \<Rightarrow> bool" where
  "same_identity a b =
     (row_id b = row_id a \<and> market_id b = market_id a \<and> question b = question a \<and>
      description b = description a \<and> liquidity b = liquidity a \<and>
      end_date b = end_date a \<and> created_at b = created_at a)"





text \<open>
  The table after a call keeps every row it had, in place, with the same values in
  the columns of \<open>same_identity\<close>.
\<close>

definition frame :: "'f market_row list \<Rightarrow> 'f market_row list \<Rightarrow> bool" where
  "frame old new =
     (length old \<le> length new \<and> (\<forall>i < length old. same_identity (old ! i) (new ! i)))"

text \<open>
  Records for the store: a complete one for the market of \<open>row_btc\<close> with new
  prices, a complete one for a market not yet stored, one that lacks the keys after
  \<open>no_price\<close>, and one without \<open>market_id\<close>.
\<close>

definition rec_update :: "rat pydict" where
  "rec_update =
     [(''market_id'', PStr ''1''), (''question'', PStr ''Will BTC hit 100k this year?''),
      (''description'', PNone), (''yes_price'', PFloat (7 / 10)),
      (''no_price'', PFloat (3 / 10)), (''volume_24h'', PFloat 60),
      (''volume'', PFloat 1100), (''active'', PBool True), (''resolved'', PBool False),
      (''outcome'', PNone), (''end_date'', PStr ''2026-12-31'')]"

definition rec_new :: "rat pydict" where
  "rec_new =
     [(''market_id'', PStr ''2''), (''question'', PStr ''Ethereum above 5k?''),
      (''description'', PNone), (''yes_price'', PFloat (1 / 4)),
      (''no_price'', PFloat (3 / 4)), (''volume_24h'', PInt 0),
      (''volume'', PFloat 10), (''active'', PBool True), (''resolved'', PBool False),
      (''outcome'', PNone), (''end_date'', PNone)]"





text \<open>Two rows that differ at most in \<open>updated_at\<close>.\<close>

definition same_content :: "'f market_row \<Rightarrow> 'f market_row \<Rightarrow> bool" where
  "same_content a b =
     (same_identity a b \<and> yes_price b = yes_price a \<and> no_price b = no_price a \<and>
      volume_24h b = volume_24h a \<and> volume b = volume a \<and> active b = active a \<and>
      resolved b = resolved a \<and> outcome b = outcome a)"

text \<open>
  Notions for the proof that a second run changes nothing but timestamps. What an
  iteration makes of the row it finds: the row after the assignments, with the
  \<open>onupdate\<close> default when they were cut short.
\<close>

definition updated_row :: "int \<Rightarrow> 'f pydict \<Rightarrow> 'f market_row \<Rightarrow> 'f market_row" where
  "updated_row now md x =
     (case update_existing now md x of
        (x', None) \<Rightarrow> x'
      | (x', Some e) \<Rightarrow> onupdate now x x')"



text \<open>A record that the loop processes as an update of the given row.\<close>

definition applies :: "'f pydict \<Rightarrow> 'f market_row \<Rightarrow> bool" where
  "applies md x = (md \<noteq> [] \<and> map_of md ''market_id'' = Some (market_id x))"

text \<open>
  The rows a row can become when the records of a batch that apply to it update it
  in order, at any times.
\<close>

fun reach :: "'f pydict list \<Rightarrow> 'f market_row \<Rightarrow> 'f market_row \<Rightarrow> bool" where
  "reach [] x y = (y = x)"
| "reach (md # batch) x y =
     (if applies md x then (\<exists>now. reach batch (updated_row now md x) y)
      else reach batch x y)"






section \<open>Verified properties\<close>

subsection \<open>Crypto filter\<close>

lemma question_lower_text:
  "question_is_text m \<Longrightarrow> \<exists>q. question_lower m = Inr q \<and> any_keyword q = crypto_payload m"
  by (cases m)
     (auto simp: question_is_text_def crypto_payload_def dict_get_def any_keyword_def lower_def
                 CRYPTO_KEYWORDS_def
           split: option.splits pyval.splits)

lemma question_lower_not_text:
  "\<not> question_is_text m \<Longrightarrow> question_lower m = Inl AttributeError"
  by (cases m)
     (auto simp: question_is_text_def dict_get_def split: option.splits pyval.splits)

lemma filter_loop_text:
  "list_all question_is_text ms \<Longrightarrow> filter_loop ms acc = Inr (acc @ filter crypto_payload ms)"
proof (induction ms arbitrary: acc)
  case Nil
  then show ?case by simp
next
  case (Cons m ms)
  then obtain q where q: "question_lower m = Inr q" "any_keyword q = crypto_payload m"
    using question_lower_text[of m] by auto
  with Cons show ?case by simp
qed

lemma filter_loop_not_text:
  "\<not> list_all question_is_text ms \<Longrightarrow> filter_loop ms acc = Inl AttributeError"
proof (induction ms arbitrary: acc)
  case Nil
  then show ?case by simp
next
  case (Cons m ms)
  show ?case
  proof (cases "question_is_text m")
    case True
    then obtain q where q: "question_lower m = Inr q"
      using question_lower_text[of m] by auto
    from True Cons.prems have "\<not> list_all question_is_text ms" by simp
    with Cons.IH q show ?thesis by simp
  next
    case False
    then show ?thesis by (simp add: question_lower_not_text)
  qed
qed

text \<open>
  Containment in the lower-case form is containment up to case: some substring of the
  question has the keyword as its lower-case form.
\<close>

lemma sublist_lower_iff:
  "sublist k (lower s) \<longleftrightarrow> (\<exists>t. sublist t s \<and> lower t = k)"
  unfolding lower_def by (metis map_mono_sublist sublist_map_rightE)

text \<open>
  C3 (as amended). On a list of payloads that are JSON objects whose question, where
  present, is a string, \<open>filter_crypto_markets\<close> returns exactly the payloads whose
  question contains a keyword up to case, in the order of the input; on any other
  list it raises \<open>AttributeError\<close>; a payload without a question is never selected.
\<close>

theorem filter_crypto_markets_text:
  "(list_all question_is_text ms \<longrightarrow>
      filter_crypto_markets ms = Inr (filter crypto_payload ms)) \<and>
   (\<not> list_all question_is_text ms \<longrightarrow> filter_crypto_markets ms = Inl AttributeError) \<and>
   (\<forall>d. map_of d ''question'' = None \<longrightarrow> \<not> crypto_payload (PDict d :: 'f pyval))"
  by (simp add: filter_crypto_markets_def filter_loop_text filter_loop_not_text
        crypto_payload_def)

theorem filter_crypto_markets_text_witness:
  "list_all question_is_text [payload_btc, payload_rain, payload_no_question, payload_eth] \<and>
   filter_crypto_markets [payload_btc, payload_rain, payload_no_question, payload_eth]
     = Inr [payload_btc, payload_eth] \<and>
   \<not> list_all question_is_text [payload_btc, payload_null_question] \<and>
   filter_crypto_markets [payload_btc, payload_null_question] = Inl AttributeError \<and>
   map_of [(''id'', PStr ''3'')] ''question'' = (None :: rat pyval option) \<and>
   \<not> crypto_payload payload_no_question"
proof -
  have a: "list_all question_is_text
             [payload_btc, payload_rain, payload_no_question, payload_eth]"
    by (simp add: question_is_text_def payload_btc_def payload_rain_def
          payload_no_question_def payload_eth_def)
  have b: "crypto_payload payload_btc"
    by (simp add: crypto_payload_def payload_btc_def lower_def lower_char_def
          CRYPTO_KEYWORDS_def sublist_code)
  have c: "\<not> crypto_payload payload_rain"
    by (simp add: crypto_payload_def payload_rain_def lower_def lower_char_def
          CRYPTO_KEYWORDS_def sublist_code)
  have d: "crypto_payload payload_eth"
    by (simp add: crypto_payload_def payload_eth_def lower_def lower_char_def
          CRYPTO_KEYWORDS_def sublist_code)
  have e: "\<not> list_all question_is_text [payload_btc, payload_null_question]"
    by (simp add: question_is_text_def payload_null_question_def)
  have f: "map_of [(''id'', PStr ''3'')] ''question'' = (None :: rat pyval option)"
    by simp
  from f filter_crypto_markets_text
         [of "[payload_btc, payload_rain, payload_no_question, payload_eth]"]
  have g: "\<not> crypto_payload payload_no_question"
    unfolding payload_no_question_def by blast
  from filter_crypto_markets_text
         [of "[payload_btc, payload_rain, payload_no_question, payload_eth]"] a
  have h1: "filter_crypto_markets [payload_btc, payload_rain, payload_no_question, payload_eth]
              = Inr (filter crypto_payload
                       [payload_btc, payload_rain, payload_no_question, payload_eth])"
    by blast
  have h2: "filter crypto_payload [payload_btc, payload_rain, payload_no_question, payload_eth]
              = [payload_btc, payload_eth]"
    using b c d g by simp
  from filter_crypto_markets_text [of "[payload_btc, payload_null_question]"] e
  have h3: "filter_crypto_markets [payload_btc, payload_null_question] = Inl AttributeError"
    by blast
  from a h1 h2 e h3 f g show ?thesis by simp
qed

theorem filter_crypto_markets_null_question:
  "\<not> (\<exists>selected. filter_crypto_markets [payload_btc, payload_null_question]
                      = Inr selected)"
  by (simp add: filter_crypto_markets_def payload_btc_def payload_null_question_def
        dict_get_def lower_def any_keyword_def)

subsection \<open>Bounded retries\<close>

lemma fetch_loop_third:
  "fetch_loop http limit (Suc (Suc 0)) slept =
     (case http limit (Suc (Suc 0)) of
        Response v \<Rightarrow>
          \<lparr>markets = (if has_len v then v else PList []), sleeps = slept,
             attempts = Suc (Suc (Suc 0))\<rparr>
      | _ \<Rightarrow> \<lparr>markets = PList [], sleeps = slept, attempts = Suc (Suc (Suc 0))\<rparr>)"
  by (subst fetch_loop.simps)
     (simp add: MAX_RETRIES_def has_len_def split: http_outcome.splits sum.splits)

lemma fetch_loop_second:
  "fetch_loop http limit (Suc 0) slept =
     (case http limit (Suc 0) of
        Response v \<Rightarrow>
          \<lparr>markets = (if has_len v then v else PList []), sleeps = slept,
             attempts = Suc (Suc 0)\<rparr>
      | OtherError \<Rightarrow> \<lparr>markets = PList [], sleeps = slept, attempts = Suc (Suc 0)\<rparr>
      | _ \<Rightarrow> fetch_loop http limit (Suc (Suc 0)) (slept @ [2]))"
  by (subst fetch_loop.simps)
     (simp add: MAX_RETRIES_def has_len_def split: http_outcome.splits sum.splits)

lemma fetch_loop_first:
  "fetch_loop http limit 0 slept =
     (case http limit 0 of
        Response v \<Rightarrow>
          \<lparr>markets = (if has_len v then v else PList []), sleeps = slept, attempts = Suc 0\<rparr>
      | OtherError \<Rightarrow> \<lparr>markets = PList [], sleeps = slept, attempts = Suc 0\<rparr>
      | _ \<Rightarrow> fetch_loop http limit (Suc 0) (slept @ [1]))"
  by (subst fetch_loop.simps)
     (simp add: MAX_RETRIES_def has_len_def split: http_outcome.splits sum.splits)

lemma all_less_Suc3:
  "(\<forall>a < Suc (Suc (Suc 0)). P a) \<longleftrightarrow> P 0 \<and> P (Suc 0) \<and> P (Suc (Suc 0))"
  by (auto simp: less_Suc_eq)

text \<open>
  C2. \<open>fetch_markets\<close> sends between one and \<open>MAX_RETRIES\<close> = 3 requests; every
  request but the last one failed with a connection failure or a timeout, and
  attempt \<open>a\<close> was followed by a sleep of \<open>2 ^ a\<close> before the next request; when all
  three attempts fail that way the result is the empty list; the first attempt that
  does anything else ends the call: with the empty list for any other exception (and
  for a document without a length), with the document for a response.
\<close>

theorem fetch_markets_bounded_retry:
  "MAX_RETRIES = 3 \<and>
   1 \<le> attempts (fetch_markets http limit) \<and>
   attempts (fetch_markets http limit) \<le> MAX_RETRIES \<and>
   (\<forall>a < attempts (fetch_markets http limit) - 1. transient (http limit a)) \<and>
   sleeps (fetch_markets http limit)
     = map (\<lambda>a. 2 ^ a) [0 ..< attempts (fetch_markets http limit) - 1] \<and>
   ((\<forall>a < MAX_RETRIES. transient (http limit a)) \<longrightarrow>
      markets (fetch_markets http limit) = PList [] \<and>
      attempts (fetch_markets http limit) = MAX_RETRIES) \<and>
   (\<forall>a < MAX_RETRIES.
      (\<forall>b < a. transient (http limit b)) \<and> \<not> transient (http limit a) \<longrightarrow>
        attempts (fetch_markets http limit) = a + 1 \<and>
        markets (fetch_markets http limit)
          = (case http limit a of
               Response v \<Rightarrow> if has_len v then v else PList []
             | _ \<Rightarrow> PList []))"
  unfolding fetch_markets_def
  by (cases "http limit 0"; cases "http limit (Suc 0)"; cases "http limit (Suc (Suc 0))")
     (auto simp add: fetch_loop_first fetch_loop_second fetch_loop_third MAX_RETRIES_def
        numeral_3_eq_3 all_less_Suc3 less_Suc_eq transient_def upt_rec)

theorem fetch_markets_bounded_retry_witness:
  "transient (down_http 100 0) \<and> transient (down_http 100 1) \<and>
   transient (down_http 100 2) \<and>
   markets (fetch_markets down_http 100) = PList [] \<and>
   attempts (fetch_markets down_http 100) = 3 \<and>
   sleeps (fetch_markets down_http 100) = [1, 2] \<and>
   transient (flaky_http 100 0) \<and> transient (flaky_http 100 1) \<and>
   \<not> transient (flaky_http 100 2) \<and>
   markets (fetch_markets flaky_http 100) = PList [payload_btc, payload_rain] \<and>
   attempts (fetch_markets flaky_http 100) = 3 \<and>
   sleeps (fetch_markets flaky_http 100) = [1, 2] \<and>
   transient (broken_http 100 0) \<and> \<not> transient (broken_http 100 1) \<and>
   markets (fetch_markets broken_http 100) = PList [] \<and>
   attempts (fetch_markets broken_http 100) = 2 \<and>
   sleeps (fetch_markets broken_http 100) = [1]"
proof -
  have w: "transient (down_http 100 0)" "transient (down_http 100 1)"
          "transient (down_http 100 2)"
          "transient (flaky_http 100 0)" "transient (flaky_http 100 1)"
          "\<not> transient (flaky_http 100 2)"
          "transient (broken_http 100 0)" "\<not> transient (broken_http 100 1)"
    by (simp_all add: down_http_def flaky_http_def broken_http_def transient_def)
  have a1: "\<forall>a < MAX_RETRIES. transient (down_http 100 a)"
    by (simp add: MAX_RETRIES_def down_http_def transient_def)
  have a2: "(\<forall>b < 2. transient (flaky_http 100 b)) \<and> \<not> transient (flaky_http 100 2)"
    by (simp add: flaky_http_def transient_def)
  have a3: "(\<forall>b < 1. transient (broken_http 100 b)) \<and> \<not> transient (broken_http 100 1)"
    by (simp add: broken_http_def transient_def)
  have m: "(2::nat) < MAX_RETRIES" "(1::nat) < MAX_RETRIES"
    by (simp_all add: MAX_RETRIES_def)
  from fetch_markets_bounded_retry [of down_http 100] a1
  have d: "markets (fetch_markets down_http 100) = PList []"
          "attempts (fetch_markets down_http 100) = MAX_RETRIES"
    by blast+
  from fetch_markets_bounded_retry [of flaky_http 100] a2 m
  have f0: "attempts (fetch_markets flaky_http 100) = 2 + 1 \<and>
            markets (fetch_markets flaky_http 100)
              = (case flaky_http 100 2 of
                   Response v \<Rightarrow> if has_len v then v else PList []
                 | _ \<Rightarrow> PList [])"
    by blast
  from fetch_markets_bounded_retry [of broken_http 100] a3 m
  have b0: "attempts (fetch_markets broken_http 100) = 1 + 1 \<and>
            markets (fetch_markets broken_http 100)
              = (case broken_http 100 1 of
                   Response v \<Rightarrow> if has_len v then v else PList []
                 | _ \<Rightarrow> PList [])"
    by blast
  from fetch_markets_bounded_retry [of down_http 100]
  have d1: "sleeps (fetch_markets down_http 100)
              = map (\<lambda>a. 2 ^ a) [0 ..< attempts (fetch_markets down_http 100) - 1]"
    by blast
  from fetch_markets_bounded_retry [of flaky_http 100]
  have f1: "sleeps (fetch_markets flaky_http 100)
              = map (\<lambda>a. 2 ^ a) [0 ..< attempts (fetch_markets flaky_http 100) - 1]"
    by blast
  from fetch_markets_bounded_retry [of broken_http 100]
  have b1: "sleeps (fetch_markets broken_http 100)
              = map (\<lambda>a. 2 ^ a) [0 ..< attempts (fetch_markets broken_http 100) - 1]"
    by blast
  have d3: "attempts (fetch_markets down_http 100) = 3"
    using d(2) by (simp add: MAX_RETRIES_def)
  have d2: "sleeps (fetch_markets down_http 100) = [1, 2]"
    unfolding d1 d3 by (simp add: upt_rec)
  from f0 have f2: "markets (fetch_markets flaky_http 100) = PList [payload_btc, payload_rain]"
                   "attempts (fetch_markets flaky_http 100) = 3"
    by (simp_all add: flaky_http_def has_len_def)
  have f3: "sleeps (fetch_markets flaky_http 100) = [1, 2]"
    unfolding f1 f2(2) by (simp add: upt_rec)
  from b0 have b2: "markets (fetch_markets broken_http 100) = PList []"
                   "attempts (fetch_markets broken_http 100) = 2"
    by (simp_all add: broken_http_def)
  have b3: "sleeps (fetch_markets broken_http 100) = [1]"
    unfolding b1 b2(2) by (simp add: upt_rec)
  from w d(1) d3 d2 f2 f3 b2 b3 show ?thesis by blast
qed

subsection \<open>Freshness\<close>

lemma fold_latest_updated_at:
  "updated_at (fold (\<lambda>x best. if updated_at best < updated_at x then x else best) rs r)
     = Max (insert (updated_at r) (updated_at ` set rs))"
proof (induction rs arbitrary: r)
  case Nil
  then show ?case by simp
next
  case (Cons x xs)
  let ?f = "\<lambda>x best. if updated_at best < updated_at x then x else best"
  have step: "updated_at (?f x r) = max (updated_at r) (updated_at x)"
    by (simp add: max_def)
  have "updated_at (fold ?f (x # xs) r) = updated_at (fold ?f xs (?f x r))"
    by simp
  also have "\<dots> = Max (insert (updated_at (?f x r)) (updated_at ` set xs))"
    by (rule Cons.IH)
  also have "\<dots> = Max (insert (max (updated_at r) (updated_at x)) (updated_at ` set xs))"
    by (simp only: step)
  also have "\<dots> = Max (insert (updated_at r) (insert (updated_at x) (updated_at ` set xs)))"
    by (cases "xs = []") (simp_all add: max.assoc)
  finally show ?case by simp
qed

lemma get_last_update_time_Max:
  "get_last_update_time db = (if db = [] then None else Some (Max (updated_at ` set db)))"
  by (cases db) (simp_all add: get_last_update_time_def latest_market_def fold_latest_updated_at)

text \<open>
  C6. With 20 minutes = 1 200 000 000 and 1 hour = 3 600 000 000 microseconds,
  \<open>get_data_freshness\<close> returns the no-data result exactly when the table is empty;
  otherwise it returns the age of the greatest \<open>updated_at\<close> and FRESH when that age
  is below 20 minutes, STALE from 20 minutes to below 1 hour, VERY STALE from 1 hour.
\<close>

theorem get_data_freshness_classes:
  "minutes 20 = 1200000000 \<and> hours 1 = 3600000000 \<and>
   (get_data_freshness utcnow db = (None, NO_DATA) \<longleftrightarrow> db = []) \<and>
   (db \<noteq> [] \<longrightarrow>
      fst (get_data_freshness utcnow db) = Some (utcnow - Max (updated_at ` set db)) \<and>
      (snd (get_data_freshness utcnow db) = FRESH
         \<longleftrightarrow> utcnow - Max (updated_at ` set db) < minutes 20) \<and>
      (snd (get_data_freshness utcnow db) = STALE
         \<longleftrightarrow> minutes 20 \<le> utcnow - Max (updated_at ` set db) \<and>
             utcnow - Max (updated_at ` set db) < hours 1) \<and>
      (snd (get_data_freshness utcnow db) = VERY_STALE
         \<longleftrightarrow> hours 1 \<le> utcnow - Max (updated_at ` set db)))"
  by (simp add: get_data_freshness_def get_last_update_time_Max Let_def minutes_def hours_def)

theorem get_data_freshness_classes_witness:
  "[row_btc] \<noteq> [] \<and>
   get_data_freshness (minutes 5) [row_btc] = (Some (minutes 5), FRESH) \<and>
   get_data_freshness (minutes 45) [row_btc] = (Some (minutes 45), STALE) \<and>
   get_data_freshness (hours 3) [row_btc] = (Some (hours 3), VERY_STALE) \<and>
   get_data_freshness (hours 3) ([] :: rat market_row list) = (None, NO_DATA)"
proof -
  have m: "Max (updated_at ` set [row_btc]) = 0"
    by (simp add: row_btc_def)
  have n: "[row_btc] \<noteq> []"
    by simp
  from get_data_freshness_classes [of "minutes 5" "[row_btc]"] n
  have a: "fst (get_data_freshness (minutes 5) [row_btc]) = Some (minutes 5)"
          "snd (get_data_freshness (minutes 5) [row_btc]) = FRESH"
    unfolding m by (simp_all add: minutes_def)
  from get_data_freshness_classes [of "minutes 45" "[row_btc]"] n
  have b: "fst (get_data_freshness (minutes 45) [row_btc]) = Some (minutes 45)"
          "snd (get_data_freshness (minutes 45) [row_btc]) = STALE"
    unfolding m by (simp_all add: minutes_def hours_def)
  from get_data_freshness_classes [of "hours 3" "[row_btc]"] n
  have c: "fst (get_data_freshness (hours 3) [row_btc]) = Some (hours 3)"
          "snd (get_data_freshness (hours 3) [row_btc]) = VERY_STALE"
    unfolding m by (simp_all add: hours_def)
  from get_data_freshness_classes [of "hours 3" "[] :: rat market_row list"]
  have d: "get_data_freshness (hours 3) ([] :: rat market_row list) = (None, NO_DATA)"
    by blast
  from n a b c d show ?thesis by (simp add: prod_eq_iff)
qed

subsection \<open>A cycle with nothing to store\<close>

text \<open>
  C9. When the fetch returns an empty list (or any other document that counts as
  false), and when the filter selects no payload, \<open>fetch_and_store_markets\<close>
  returns \<open>False\<close> and the committed table is the one before the cycle.
\<close>

theorem fetch_and_store_markets_nothing_to_store:
  "(\<not> truthy E (markets (fetch_markets http 100)) \<longrightarrow>
      fetch_and_store_markets E http clock commit_ok db = (False, db)) \<and>
   (\<forall>payloads.
      py_iter (markets (fetch_markets http 100)) = Inr payloads \<and>
      filter_crypto_markets payloads = Inr [] \<longrightarrow>
      fetch_and_store_markets E http clock commit_ok db = (False, db))"
  by (auto simp: fetch_and_store_markets_def Let_def)

theorem fetch_and_store_markets_nothing_to_store_witness:
  "\<not> truthy example_env (markets (fetch_markets empty_http 100)) \<and>
   fetch_and_store_markets example_env empty_http (\<lambda>k. 7) True [row_btc] = (False, [row_btc]) \<and>
   py_iter (markets (fetch_markets rain_http 100)) = Inr [payload_rain] \<and>
   filter_crypto_markets [payload_rain] = Inr [] \<and>
   fetch_and_store_markets example_env rain_http (\<lambda>k. 7) True [row_btc] = (False, [row_btc])"
proof -
  have e: "markets (fetch_markets empty_http 100) = PList []"
    by (simp add: fetch_markets_def fetch_loop_first empty_http_def has_len_def)
  have r: "markets (fetch_markets rain_http 100) = PList [payload_rain]"
    by (simp add: fetch_markets_def fetch_loop_first rain_http_def has_len_def)
  have a: "\<not> truthy example_env (markets (fetch_markets empty_http 100))"
    unfolding e by simp
  have b: "py_iter (markets (fetch_markets rain_http 100)) = Inr [payload_rain]"
    unfolding r by simp
  have c: "filter_crypto_markets [payload_rain] = Inr []"
    by (simp add: filter_crypto_markets_def payload_rain_def dict_get_def lower_def
          lower_char_def any_keyword_def CRYPTO_KEYWORDS_def sublist_code)
  from fetch_and_store_markets_nothing_to_store
         [of example_env empty_http "\<lambda>k. 7" True "[row_btc]"] a
  have x: "fetch_and_store_markets example_env empty_http (\<lambda>k. 7) True [row_btc]
             = (False, [row_btc])"
    by blast
  from fetch_and_store_markets_nothing_to_store
         [of example_env rain_http "\<lambda>k. 7" True "[row_btc]"] b c
  have y: "fetch_and_store_markets example_env rain_http (\<lambda>k. 7) True [row_btc]
             = (False, [row_btc])"
    by blast
  from a b c x y show ?thesis by blast
qed

subsection \<open>Volumes of a normalized record\<close>

lemma volume_of_cases:
  "volume_of E m k =
     (if \<not> truthy E (dict_get m k PNone) then Inr (PInt 0)
      else case py_float E (dict_get m k PNone) of
             Inl e \<Rightarrow> Inl e
           | Inr x \<Rightarrow> Inr (PFloat x))"
  by (cases "map_of m k") (simp_all add: volume_of_def dict_get_def)

lemma extract_market_data_Some:
  "extract_market_data E m = Some r \<Longrightarrow>
     \<exists>v24 v. volume_of E m ''volume24h'' = Inr v24 \<and> volume_of E m ''volume'' = Inr v \<and>
            map_of r ''volume_24h'' = Some v24 \<and> map_of r ''volume'' = Some v"
  by (auto simp: extract_market_data_def extract_body_def Let_def split: sum.splits)

lemma extract_market_data_volume_error:
  "volume_of E m ''volume24h'' = Inl e \<or> volume_of E m ''volume'' = Inl e
     \<Longrightarrow> extract_market_data E m = None"
  by (auto simp: extract_market_data_def extract_body_def Let_def split: sum.splits)

lemma extract_market_data_plain:
  "map_of m ''outcomePrices'' = None \<Longrightarrow> map_of m ''volume'' = None
     \<Longrightarrow> map_of m ''volume24h'' = None
     \<Longrightarrow> \<exists>r. extract_market_data E m = Some r \<and> map_of r ''volume'' = Some (PInt 0) \<and>
             map_of r ''volume_24h'' = Some (PInt 0)"
  by (simp add: extract_market_data_def extract_body_def Let_def dict_get_def price_at_def
        volume_of_def)

text \<open>
  C4 (as amended). Whenever \<open>extract_market_data\<close> returns a record, its \<open>volume\<close>
  (\<open>volume_24h\<close>) is 0 if the source field \<open>volume\<close> (\<open>volume24h\<close>) is absent or
  counts as false, and the float of the source value otherwise. A source value that
  counts as true and that \<open>float\<close> rejects makes \<open>extract_market_data\<close> return
  \<open>None\<close>. A payload without the two volume fields and without \<open>outcomePrices\<close>
  always yields a record, with both volumes 0.
\<close>

theorem extract_market_data_volumes:
  "(\<forall>r. extract_market_data E m = Some r \<longrightarrow>
      (\<not> truthy E (dict_get m ''volume'' PNone) \<longrightarrow> map_of r ''volume'' = Some (PInt 0)) \<and>
      (truthy E (dict_get m ''volume'' PNone) \<longrightarrow>
         (\<exists>x. py_float E (dict_get m ''volume'' PNone) = Inr x \<and>
              map_of r ''volume'' = Some (PFloat x))) \<and>
      (\<not> truthy E (dict_get m ''volume24h'' PNone) \<longrightarrow>
         map_of r ''volume_24h'' = Some (PInt 0)) \<and>
      (truthy E (dict_get m ''volume24h'' PNone) \<longrightarrow>
         (\<exists>x. py_float E (dict_get m ''volume24h'' PNone) = Inr x \<and>
              map_of r ''volume_24h'' = Some (PFloat x)))) \<and>
   (\<forall>k e. (k = ''volume'' \<or> k = ''volume24h'') \<and> truthy E (dict_get m k PNone) \<and>
          py_float E (dict_get m k PNone) = Inl e \<longrightarrow>
      extract_market_data E m = None) \<and>
   (map_of m ''outcomePrices'' = None \<and> map_of m ''volume'' = None \<and>
    map_of m ''volume24h'' = None \<longrightarrow>
      (\<exists>r. extract_market_data E m = Some r \<and> map_of r ''volume'' = Some (PInt 0) \<and>
           map_of r ''volume_24h'' = Some (PInt 0)))"
proof (intro conjI allI impI)
  fix r assume r: "extract_market_data E m = Some r"
  from extract_market_data_Some [OF r] obtain v24 v where
    v: "volume_of E m ''volume24h'' = Inr v24" "volume_of E m ''volume'' = Inr v"
       "map_of r ''volume_24h'' = Some v24" "map_of r ''volume'' = Some v"
    by blast
  { assume "\<not> truthy E (dict_get m ''volume'' PNone)"
    with v show "map_of r ''volume'' = Some (PInt 0)"
      by (simp add: volume_of_cases) }
  { assume "truthy E (dict_get m ''volume'' PNone)"
    with v show "\<exists>x. py_float E (dict_get m ''volume'' PNone) = Inr x \<and>
                     map_of r ''volume'' = Some (PFloat x)"
      by (auto simp: volume_of_cases split: sum.splits) }
  { assume "\<not> truthy E (dict_get m ''volume24h'' PNone)"
    with v show "map_of r ''volume_24h'' = Some (PInt 0)"
      by (simp add: volume_of_cases) }
  { assume "truthy E (dict_get m ''volume24h'' PNone)"
    with v show "\<exists>x. py_float E (dict_get m ''volume24h'' PNone) = Inr x \<and>
                     map_of r ''volume_24h'' = Some (PFloat x)"
      by (auto simp: volume_of_cases split: sum.splits) }
next
  fix k e
  assume "(k = ''volume'' \<or> k = ''volume24h'') \<and> truthy E (dict_get m k PNone) \<and>
          py_float E (dict_get m k PNone) = Inl e"
  then have "volume_of E m ''volume24h'' = Inl e \<or> volume_of E m ''volume'' = Inl e"
    by (auto simp: volume_of_cases)
  then show "extract_market_data E m = None"
    by (rule extract_market_data_volume_error)
next
  assume "map_of m ''outcomePrices'' = None \<and> map_of m ''volume'' = None \<and>
          map_of m ''volume24h'' = None"
  then show "\<exists>r. extract_market_data E m = Some r \<and> map_of r ''volume'' = Some (PInt 0) \<and>
                 map_of r ''volume_24h'' = Some (PInt 0)"
    by (simp add: extract_market_data_plain)
qed

theorem extract_market_data_volumes_witness:
  "truthy example_env (dict_get market_numeric ''volume'' PNone) \<and>
   truthy example_env (dict_get market_numeric ''volume24h'' PNone) \<and>
   (\<exists>r. extract_market_data example_env market_numeric = Some r \<and>
        map_of r ''yes_price'' = Some (PFloat (13 / 20)) \<and>
        map_of r ''volume'' = Some (PFloat (3001 / 2)) \<and>
        map_of r ''volume_24h'' = Some (PFloat 20)) \<and>
   truthy example_env (dict_get market_text_volume ''volume'' PNone) \<and>
   py_float example_env (dict_get market_text_volume ''volume'' PNone) = Inl ValueError \<and>
   extract_market_data example_env market_text_volume = None \<and>
   map_of market_no_volume ''outcomePrices'' = None \<and>
   map_of market_no_volume ''volume'' = None \<and>
   map_of market_no_volume ''volume24h'' = None \<and>
   (\<exists>r. extract_market_data example_env market_no_volume = Some r \<and>
        map_of r ''volume'' = Some (PInt 0) \<and> map_of r ''volume_24h'' = Some (PInt 0))"
proof -
  have t: "truthy example_env (dict_get market_numeric ''volume'' PNone)"
          "truthy example_env (dict_get market_numeric ''volume24h'' PNone)"
    by (simp_all add: market_numeric_def dict_get_def)
  have f: "py_float example_env (dict_get market_numeric ''volume'' PNone) = Inr (3001 / 2)"
          "py_float example_env (dict_get market_numeric ''volume24h'' PNone) = Inr 20"
    by (simp_all add: market_numeric_def dict_get_def example_env_def)
  obtain r where r: "extract_market_data example_env market_numeric = Some r"
                    "map_of r ''yes_price'' = Some (PFloat (13 / 20))"
    by (simp add: extract_market_data_def extract_body_def market_numeric_def dict_get_def
          example_env_def price_at_def volume_of_def)
  from extract_market_data_volumes [of example_env market_numeric] r(1) t f
  have v: "map_of r ''volume'' = Some (PFloat (3001 / 2))"
          "map_of r ''volume_24h'' = Some (PFloat 20)"
    by auto
  have b: "truthy example_env (dict_get market_text_volume ''volume'' PNone)"
          "py_float example_env (dict_get market_text_volume ''volume'' PNone) = Inl ValueError"
    by (simp_all add: market_text_volume_def dict_get_def example_env_def)
  from extract_market_data_volumes [of example_env market_text_volume] b
  have n: "extract_market_data example_env market_text_volume = None"
    by blast
  have a: "map_of market_no_volume ''outcomePrices'' = None"
          "map_of market_no_volume ''volume'' = None"
          "map_of market_no_volume ''volume24h'' = None"
    by (simp_all add: market_no_volume_def)
  from extract_market_data_volumes [of example_env market_no_volume] a
  have p: "\<exists>r. extract_market_data example_env market_no_volume = Some r \<and>
               map_of r ''volume'' = Some (PInt 0) \<and> map_of r ''volume_24h'' = Some (PInt 0)"
    by blast
  from t r v b n a p show ?thesis by blast
qed

theorem extract_market_data_non_numeric_volume:
  "map_of market_text_volume ''volume'' = Some (PStr ''n/a'') \<and>
   extract_market_data example_env market_text_volume = None \<and>
   map_of market_list_volume ''volume24h'' = Some (PList [PInt 1]) \<and>
   extract_market_data example_env market_list_volume = None"
  by (simp add: extract_market_data_def extract_body_def market_text_volume_def
        market_list_volume_def dict_get_def example_env_def price_at_def volume_of_def)

subsection \<open>Success rate of the log summary\<close>

lemma count_runs_acc:
  "count_runs ls (s, f) =
     (s + length (filter (sublist ''Data fetch completed successfully'') ls),
      f + length (filter (\<lambda>l. \<not> sublist ''Data fetch completed successfully'' l \<and>
                              sublist ''Fatal error in fetch_and_store_markets'' l) ls))"
  by (induction ls arbitrary: s f) simp_all

text \<open>
  When the log file can be read, the division is never evaluated with divisor 0:
  the summary is a dict whose \<open>success_rate\<close> is \<open>N/A\<close> for no counted run and the
  formatted quotient otherwise.
\<close>

lemma get_log_summary_lines:
  "count_runs ls (0, 0) = (s, f) \<Longrightarrow>
     \<exists>d. get_log_summary F (Lines ls) = Inr d \<and>
         map_of d ''success_rate'' =
           Some (if s + f = 0 then PStr ''N/A''
                 else PStr (format_1f F
                              (float_mul_int F (int_truediv F (int s) (int s + int f)) 100)
                            @ ''%''))"
  by (simp add: get_log_summary_def success_rate_def py_truediv_def)

text \<open>
  C7 fails when the log file does not exist: the summary reports zero successful and
  zero failed runs but carries no \<open>success_rate\<close> at all, and the lines of
  \<open>print_status\<close> that print the summary then raise \<open>KeyError\<close>.
\<close>

theorem get_log_summary_missing_log:
  "get_log_summary F Missing =
     Inr [(''total_fetches'', PInt 0), (''successful_fetches'', PInt 0),
          (''failed_fetches'', PInt 0)] \<and>
   map_of [(''total_fetches'', PInt 0 :: 'f pyval), (''successful_fetches'', PInt 0),
           (''failed_fetches'', PInt 0)] ''success_rate'' = None \<and>
   print_performance [(''total_fetches'', PInt 0 :: 'f pyval), (''successful_fetches'', PInt 0),
                      (''failed_fetches'', PInt 0)] = Inl KeyError"
  by (simp add: get_log_summary_def print_performance_def dict_item_def)

subsection \<open>Columns the store never rewrites\<close>

lemma same_identity_refl: "same_identity a a"
  by (simp add: same_identity_def)

lemma same_identity_trans: "same_identity a b \<Longrightarrow> same_identity b c \<Longrightarrow> same_identity a c"
  by (simp add: same_identity_def)

lemma update_existing_identity:
  "same_identity x (fst (update_existing now md x))"
  by (simp add: update_existing_def same_identity_def split: sum.splits)

lemma onupdate_identity:
  "same_identity x x' \<Longrightarrow> same_identity x (onupdate now x x')"
  by (simp add: onupdate_def same_identity_def)

lemma modify_first_length: "length (modify_first P f xs) = length xs"
  by (induction xs) simp_all

lemma modify_first_nth:
  "i < length xs \<Longrightarrow>
     modify_first P f xs ! i = xs ! i \<or> (P (xs ! i) \<and> modify_first P f xs ! i = f (xs ! i))"
proof (induction xs arbitrary: i)
  case Nil
  then show ?case by simp
next
  case (Cons x xs)
  then show ?case by (cases i) auto
qed

lemma find_modify_first:
  "find P xs = Some x \<Longrightarrow> modify_first P (\<lambda>r. g x) xs = modify_first P g xs"
  by (induction xs) (auto split: if_splits)

lemma frame_refl: "frame xs xs"
  by (simp add: frame_def same_identity_refl)

lemma frame_trans: "frame xs ys \<Longrightarrow> frame ys zs \<Longrightarrow> frame xs zs"
  unfolding frame_def by (meson le_trans less_le_trans same_identity_trans)

lemma frame_append: "frame xs (xs @ ys)"
  by (simp add: frame_def nth_append same_identity_refl)

lemma frame_modify_first:
  "(\<And>x. x \<in> set xs \<Longrightarrow> same_identity x (f x)) \<Longrightarrow> frame xs (modify_first P f xs)"
  unfolding frame_def
  by (metis modify_first_length modify_first_nth nth_mem order_refl same_identity_refl)

lemma process_market_frame: "frame (rows s) (rows (process_market clock md s))"
proof -
  have u: "\<And>mid existing e x'.
      query_first mid (rows s) = Some existing \<Longrightarrow>
      update_existing (clock (ticks s)) md existing = (x', e) \<Longrightarrow>
      frame (rows s) (modify_first (\<lambda>r. market_id r = mid) (\<lambda>r. x') (rows s)) \<and>
      frame (rows s) (modify_first (\<lambda>r. market_id r = mid)
                       (\<lambda>r. onupdate (clock (ticks s)) existing x') (rows s))"
  proof -
    fix mid existing e x'
    assume q: "query_first mid (rows s) = Some existing"
       and v: "update_existing (clock (ticks s)) md existing = (x', e)"
    from q have f: "find (\<lambda>r. market_id r = mid) (rows s) = Some existing"
      by (simp add: query_first_def)
    from v have x': "x' = fst (update_existing (clock (ticks s)) md existing)"
      by simp
    have a: "modify_first (\<lambda>r. market_id r = mid) (\<lambda>r. x') (rows s)
               = modify_first (\<lambda>r. market_id r = mid)
                   (\<lambda>r. fst (update_existing (clock (ticks s)) md r)) (rows s)"
      unfolding x' by (rule find_modify_first [OF f])
    have b: "modify_first (\<lambda>r. market_id r = mid)
               (\<lambda>r. onupdate (clock (ticks s)) existing x') (rows s)
               = modify_first (\<lambda>r. market_id r = mid)
                   (\<lambda>r. onupdate (clock (ticks s)) r
                          (fst (update_existing (clock (ticks s)) md r))) (rows s)"
      unfolding x'
      by (rule find_modify_first
            [OF f, of "\<lambda>r. onupdate (clock (ticks s)) r
                               (fst (update_existing (clock (ticks s)) md r))"])
    show "frame (rows s) (modify_first (\<lambda>r. market_id r = mid) (\<lambda>r. x') (rows s)) \<and>
          frame (rows s) (modify_first (\<lambda>r. market_id r = mid)
                       (\<lambda>r. onupdate (clock (ticks s)) existing x') (rows s))"
      unfolding a b
      by (simp add: frame_modify_first update_existing_identity onupdate_identity)
  qed
  show ?thesis
    unfolding process_market_def
    by (auto simp: frame_refl frame_append u split: sum.splits option.splits prod.splits)
qed

lemma fold_process_market_frame:
  "frame (rows s) (rows (fold (process_market clock) batch s))"
proof (induction batch arbitrary: s)
  case Nil
  then show ?case by (simp add: frame_refl)
next
  case (Cons md batch)
  show ?case
    using frame_trans [OF process_market_frame Cons.IH] by simp
qed

lemma store_markets_frame: "frame db (fst (store_markets clock commit_ok db batch))"
  using fold_process_market_frame [of "\<lparr>rows = db, ticks = 0, stored_count = 0\<rparr>" clock batch]
  by (simp add: store_markets_def Let_def frame_refl)

text \<open>
  C10. Whatever the batch and the outcome of the commit, every row of the table
  before \<open>store_markets\<close> is still there afterwards, at the same position, with
  the same \<open>market_id\<close>, \<open>question\<close>, \<open>description\<close>, \<open>end_date\<close> and
  \<open>created_at\<close> (and the same \<open>id\<close> and \<open>liquidity\<close>): only the eight columns
  the update branch assigns can differ.
\<close>

theorem store_markets_keeps_identity:
  "length db \<le> length (fst (store_markets clock commit_ok db batch)) \<and>
   (\<forall>i < length db.
      market_id (fst (store_markets clock commit_ok db batch) ! i) = market_id (db ! i) \<and>
      question (fst (store_markets clock commit_ok db batch) ! i) = question (db ! i) \<and>
      description (fst (store_markets clock commit_ok db batch) ! i) = description (db ! i) \<and>
      end_date (fst (store_markets clock commit_ok db batch) ! i) = end_date (db ! i) \<and>
      created_at (fst (store_markets clock commit_ok db batch) ! i) = created_at (db ! i) \<and>
      row_id (fst (store_markets clock commit_ok db batch) ! i) = row_id (db ! i) \<and>
      liquidity (fst (store_markets clock commit_ok db batch) ! i) = liquidity (db ! i))"
  using store_markets_frame [of db clock commit_ok batch]
  by (simp add: frame_def same_identity_def)

theorem store_markets_keeps_identity_witness:
  "(0::nat) < length [row_btc] \<and>
   fst (store_markets (\<lambda>k. 7) True [row_btc] [rec_update, rec_new]) ! 0
     = row_btc\<lparr>yes_price := PFloat (7 / 10), no_price := PFloat (3 / 10),
         volume_24h := PFloat 60, volume := PFloat 1100, active := PBool True,
         resolved := PBool False, outcome := PNone, updated_at := 7\<rparr> \<and>
   question (fst (store_markets (\<lambda>k. 7) True [row_btc] [rec_update, rec_new]) ! 0)
     = PStr ''Will BTC hit 100k?'' \<and>
   created_at (fst (store_markets (\<lambda>k. 7) True [row_btc] [rec_update, rec_new]) ! 0) = 0"
proof -
  have l: "(0::nat) < length [row_btc]"
    by simp
  have e: "fst (store_markets (\<lambda>k. 7) True [row_btc] [rec_update, rec_new]) ! 0
             = row_btc\<lparr>yes_price := PFloat (7 / 10), no_price := PFloat (3 / 10),
                 volume_24h := PFloat 60, volume := PFloat 1100, active := PBool True,
                 resolved := PBool False, outcome := PNone, updated_at := 7\<rparr>"
    by (simp add: store_markets_def process_market_def query_first_def update_existing_def
          new_market_def dict_item_def rec_update_def rec_new_def row_btc_def Let_def)
  from store_markets_keeps_identity [of "[row_btc]" "\<lambda>k. 7" True "[rec_update, rec_new]"] l
  have q: "question (fst (store_markets (\<lambda>k. 7) True [row_btc] [rec_update, rec_new]) ! 0)
             = question ([row_btc] ! 0)"
          "created_at (fst (store_markets (\<lambda>k. 7) True [row_btc] [rec_update, rec_new]) ! 0)
             = created_at ([row_btc] ! 0)"
    by blast+
  have r: "question ([row_btc] ! 0) = PStr ''Will BTC hit 100k?''"
          "created_at ([row_btc] ! 0) = 0"
    by (simp_all add: row_btc_def)
  from l e q r show ?thesis by simp
qed

subsection \<open>The update branch\<close>










subsection \<open>One transaction per batch\<close>














subsection \<open>Running the same batch twice\<close>


lemma same_content_sym: "same_content a b \<Longrightarrow> same_content b a"
  by (simp add: same_content_def same_identity_def)

lemma same_content_trans: "same_content a b \<Longrightarrow> same_content b c \<Longrightarrow> same_content a c"
  by (simp add: same_content_def same_identity_def)
























lemma reach_single:
  "reach [md] z y \<longleftrightarrow> (if applies md z then \<exists>now. y = updated_row now md z else y = z)"
  by simp































end
